theory Spec2Isabelle
  imports Main "HOL-Library.Word" "HOL-Library.Sublist"
begin

section \<open>Python values\<close>

text \<open>
  A Python \<open>str\<close> is a sequence of Unicode code points, so it is modelled as a list of
  natural numbers. \<open>str\<close> turns an ASCII literal of the source into that form.
\<close>

type_synonym pystr = "nat list"

definition str :: "string \<Rightarrow> pystr" where
  "str s = map of_char s"

text \<open>
  The values \<open>response.json()\<close> produces: \<open>dict\<close> (string keys, in insertion order,
  hence an association list whose keys are distinct), \<open>list\<close>, \<open>str\<close>, \<open>int\<close>,
  \<open>float\<close> (an IEEE 754 double, kept as its 64-bit pattern: the program never computes
  with it), \<open>bool\<close> and \<open>None\<close>. The envelopes the tools return are values of the same
  kind.
\<close>

datatype json =
    JObject "(pystr \<times> json) list"
  | JArray "json list"
  | JString pystr
  | JInt int
  | JFloat "64 word"
  | JBool bool
  | JNull

text \<open>
  \<open>str.isspace\<close> for one code point, as CPython's Unicode database has it: U+0009..U+000D,
  U+001C..U+0020, U+0085, U+00A0, U+1680, U+2000..U+200A, U+2028, U+2029, U+202F, U+205F,
  U+3000.
\<close>

definition py_isspace :: "nat \<Rightarrow> bool" where
  "py_isspace c =
     ((9 \<le> c \<and> c \<le> 13) \<or> (28 \<le> c \<and> c \<le> 32) \<or> c = 133 \<or> c = 160 \<or> c = 5760 \<or>
      (8192 \<le> c \<and> c \<le> 8202) \<or> c = 8232 \<or> c = 8233 \<or> c = 8239 \<or> c = 8287 \<or> c = 12288)"

text \<open>\<open>s.strip()\<close> with no argument: the whitespace at both ends is dropped.\<close>

definition strip :: "pystr \<Rightarrow> pystr" where
  "strip s = rev (dropWhile py_isspace (rev (dropWhile py_isspace s)))"

section \<open>The whitespace-trim pass\<close>

text \<open>
  \<open>clean_json\<close>, defined three times in the source with the same body (lines 92, 162, 211):
  \<^verbatim>\<open>
  def clean_json(obj):
      if isinstance(obj, dict):
          return {k: clean_json(v) for k, v in obj.items()}
      elif isinstance(obj, list):
          return [clean_json(item) for item in obj]
      elif isinstance(obj, str):
          return obj.strip()
      return obj
  \<close>
\<close>

fun clean_json :: "json \<Rightarrow> json" where
  "clean_json (JObject kvs) = JObject (map (\<lambda>(k, v). (k, clean_json v)) kvs)"
| "clean_json (JArray xs) = JArray (map clean_json xs)"
| "clean_json (JString s) = JString (strip s)"
| "clean_json obj = obj"

text \<open>
  The same function with a budget of nested calls: each call of \<open>clean_json\<close> spends one
  unit, and \<open>None\<close> is a run that exhausts the budget before it returns.
\<close>

fun clean_json_fuel :: "nat \<Rightarrow> json \<Rightarrow> json option" where
  "clean_json_fuel 0 obj = None"
| "clean_json_fuel (Suc n) (JObject kvs) =
     map_option JObject
       (those (map (\<lambda>(k, v). map_option (Pair k) (clean_json_fuel n v)) kvs))"
| "clean_json_fuel (Suc n) (JArray xs) =
     map_option JArray (those (map (clean_json_fuel n) xs))"
| "clean_json_fuel (Suc n) (JString s) = Some (JString (strip s))"
| "clean_json_fuel (Suc n) obj = Some obj"

text \<open>The nesting depth of a value: the longest chain of containers inside it.\<close>

fun depth :: "json \<Rightarrow> nat" where
  "depth (JObject kvs) = Suc (foldr max (map (\<lambda>(k, v). depth v) kvs) 0)"
| "depth (JArray xs) = Suc (foldr max (map depth xs) 0)"
| "depth obj = 0"

section \<open>Exceptions and Python's operations on parsed JSON\<close>

text \<open>
  Every exception the tools can raise is a value: \<open>ValueError\<close> is the one the source raises
  itself, the next three come from the HTTP client (\<open>client.get\<close>,
  \<open>raise_for_status\<close>, \<open>response.json\<close>), the last three from Python's own operations on
  a value of the wrong shape.
\<close>

datatype error =
    ValueError pystr
  | TransportError
  | HTTPStatusError nat
  | JSONDecodeError
  | KeyError pystr
  | TypeError
  | AttributeError

definition and_then :: "error + 'a \<Rightarrow> ('a \<Rightarrow> error + 'b) \<Rightarrow> error + 'b" where
  "and_then m f = (case m of Inl e \<Rightarrow> Inl e | Inr x \<Rightarrow> f x)"

text \<open>A \<open>for\<close> loop or comprehension whose body may raise: the first exception ends it.\<close>

fun for_each :: "('a \<Rightarrow> error + 'b) \<Rightarrow> 'a list \<Rightarrow> error + 'b list" where
  "for_each f [] = Inr []"
| "for_each f (x # xs) =
     (case f x of
        Inl e \<Rightarrow> Inl e
      | Inr y \<Rightarrow> (case for_each f xs of Inl e \<Rightarrow> Inl e | Inr ys \<Rightarrow> Inr (y # ys)))"

text \<open>A comprehension \<open>[x for x in xs if p(x)]\<close> whose condition may raise.\<close>

fun filter_each :: "('a \<Rightarrow> error + bool) \<Rightarrow> 'a list \<Rightarrow> error + 'a list" where
  "filter_each p [] = Inr []"
| "filter_each p (x # xs) =
     (case p x of
        Inl e \<Rightarrow> Inl e
      | Inr b \<Rightarrow>
          (case filter_each p xs of
             Inl e \<Rightarrow> Inl e
           | Inr ys \<Rightarrow> Inr (if b then x # ys else ys)))"

text \<open>\<open>obj.get(key, dflt)\<close>: only a \<open>dict\<close> has the method.\<close>

definition py_get :: "json \<Rightarrow> pystr \<Rightarrow> json \<Rightarrow> error + json" where
  "py_get obj key dflt =
     (case obj of
        JObject kvs \<Rightarrow> Inr (case map_of kvs key of None \<Rightarrow> dflt | Some v \<Rightarrow> v)
      | _ \<Rightarrow> Inl AttributeError)"

text \<open>
  \<open>obj[key]\<close> with a string key: \<open>KeyError\<close> on a \<open>dict\<close> without the key, \<open>TypeError\<close> on
  every other value (a list or string wants an integer index, the rest has no subscript).
\<close>

definition py_getitem :: "json \<Rightarrow> pystr \<Rightarrow> error + json" where
  "py_getitem obj key =
     (case obj of
        JObject kvs \<Rightarrow> (case map_of kvs key of None \<Rightarrow> Inl (KeyError key) | Some v \<Rightarrow> Inr v)
      | _ \<Rightarrow> Inl TypeError)"

text \<open>
  \<open>for x in obj\<close>: a list gives its elements, a \<open>dict\<close> its keys, a string its characters
  (strings of length one); nothing else is iterable.
\<close>

definition py_iter :: "json \<Rightarrow> error + json list" where
  "py_iter obj =
     (case obj of
        JArray xs \<Rightarrow> Inr xs
      | JObject kvs \<Rightarrow> Inr (map (\<lambda>(k, v). JString k) kvs)
      | JString s \<Rightarrow> Inr (map (\<lambda>c. JString [c]) s)
      | _ \<Rightarrow> Inl TypeError)"

text \<open>\<open>v.strip()\<close>: only a string has the method.\<close>

definition py_strip :: "json \<Rightarrow> error + json" where
  "py_strip v = (case v of JString s \<Rightarrow> Inr (JString (strip s)) | _ \<Rightarrow> Inl AttributeError)"

text \<open>\<open>obj.items()\<close>: only a \<open>dict\<close> has the method.\<close>

definition py_items :: "json \<Rightarrow> error + (pystr \<times> json) list" where
  "py_items obj = (case obj of JObject kvs \<Rightarrow> Inr kvs | _ \<Rightarrow> Inl AttributeError)"

text \<open>
  Truthiness: empty containers and strings, zero, \<open>False\<close> and \<open>None\<close> are false. A double
  is zero when all its bits but the sign are.
\<close>

definition py_bool :: "json \<Rightarrow> bool" where
  "py_bool v =
     (case v of
        JObject kvs \<Rightarrow> kvs \<noteq> []
      | JArray xs \<Rightarrow> xs \<noteq> []
      | JString s \<Rightarrow> s \<noteq> []
      | JInt i \<Rightarrow> i \<noteq> 0
      | JFloat w \<Rightarrow> take_bit 63 w \<noteq> 0
      | JBool b \<Rightarrow> b
      | JNull \<Rightarrow> False)"

text \<open>\<open>sep.join(xs)\<close>.\<close>

fun join :: "pystr \<Rightarrow> pystr list \<Rightarrow> pystr" where
  "join sep [] = []"
| "join sep [x] = x"
| "join sep (x # xs) = x @ sep @ join sep xs"

section \<open>The upstream HTTP API\<close>

text \<open>
  The upstream is a parameter of every tool: what a GET of a URL gives. \<open>None\<close> is a
  transport failure (\<open>client.get\<close> raises); otherwise the response has a status code and a
  body, which \<open>response.json()\<close> parses or fails to parse (\<open>None\<close>).
  \<open>raise_for_status\<close> raises unless the status is 2xx.
\<close>

record response =
  status_code :: nat
  json_body :: "json option"

type_synonym upstream = "pystr \<Rightarrow> response option"

definition fetch :: "upstream \<Rightarrow> pystr \<Rightarrow> error + json" where
  "fetch up url =
     (case up url of
        None \<Rightarrow> Inl TransportError
      | Some r \<Rightarrow>
          if 200 \<le> status_code r \<and> status_code r \<le> 299
          then (case json_body r of None \<Rightarrow> Inl JSONDecodeError | Some j \<Rightarrow> Inr j)
          else Inl (HTTPStatusError (status_code r)))"

text \<open>
  What a tool call does: the value it returns or the exception it raises, and the URLs it
  requested from the upstream, in order.
\<close>

type_synonym outcome = "(error + json) \<times> pystr list"

section \<open>The catalog\<close>

definition METADATA_BASE_URL :: pystr where
  "METADATA_BASE_URL = str ''https://datadashboard.health.gov.il/api/content/dashboard''"

definition DATA_BASE_URL :: pystr where
  "DATA_BASE_URL = str ''https://datadashboard.health.gov.il/api''"

definition SUBJECTS_INFO :: "(pystr \<times> (pystr \<times> pystr) list) list" where
  "SUBJECTS_INFO =
    [(str ''warCasualties'',
        [(str ''name'', str ''War Casualties''),
         (str ''description'',
          str ''Information about war-related medical cases and emergency support contacts'')]),
     (str ''medicalServices'',
        [(str ''name'', str ''Medical Services Availability''),
         (str ''description'',
          str ''Information about availability of various medical services including pharmacies, HMO services, family health centers'')]),
     (str ''beaches'',
        [(str ''name'', str ''Beaches''),
         (str ''description'', str ''Information about beach conditions and facilities'')]),
     (str ''HMO_insured_main'',
        [(str ''name'', str ''HMO Insurance''),
         (str ''description'', str ''Information about health insurance through HMOs'')]),
     (str ''childKi'',
        [(str ''name'', str ''Child Development''),
         (str ''description'', str ''Information about child development services'')]),
     (str ''childCheckup'',
        [(str ''name'', str ''Child Checkups''),
         (str ''description'', str ''Information about child medical checkup services'')]),
     (str ''serviceQuality'',
        [(str ''name'', str ''Service Quality''),
         (str ''description'',
          str ''Quality measurements, patient experience surveys, and service complaints across medical facilities'')])]"

text \<open>\<open>SUBJECTS = list(SUBJECTS_INFO.keys())\<close>\<close>

definition SUBJECTS :: "pystr list" where
  "SUBJECTS = map fst SUBJECTS_INFO"

text \<open>\<open>f"Invalid subject. Must be one of: {', '.join(SUBJECTS)}"\<close>\<close>

definition invalid_subject_message :: pystr where
  "invalid_subject_message = str ''Invalid subject. Must be one of: '' @ join (str '', '') SUBJECTS"

section \<open>The tools\<close>

text \<open>
  The element of the comprehension in \<open>get_available_subjects\<close> (lines 58-62):
  \<open>info["name"]\<close> and \<open>info["description"]\<close> are lookups that raise on a missing key.
\<close>

definition subject_entry :: "pystr \<times> (pystr \<times> pystr) list \<Rightarrow> error + json" where
  "subject_entry = (\<lambda>(subject_id, info).
     case map_of info (str ''name'') of
       None \<Rightarrow> Inl (KeyError (str ''name''))
     | Some name \<Rightarrow>
         (case map_of info (str ''description'') of
            None \<Rightarrow> Inl (KeyError (str ''description''))
          | Some description \<Rightarrow>
              Inr (JObject [(str ''id'', JString subject_id),
                            (str ''name'', JString name),
                            (str ''description'', JString description)])))"

definition get_available_subjects :: outcome where
  "get_available_subjects =
     (and_then (for_each subject_entry SUBJECTS_INFO) (\<lambda>subjects.
        Inr (JObject [(str ''status'', JString (str ''success'')),
                      (str ''data'', JObject [(str ''subjects'', JArray subjects)])])),
      [])"

text \<open>
  The body of the loop over the cards (lines 108-117). The six required fields are looked
  up and stripped in the order of the literal; \<open>embedLink\<close> is optional.
\<close>

definition required_field :: "json \<Rightarrow> pystr \<Rightarrow> error + json" where
  "required_field obj key = and_then (py_getitem obj key) py_strip"

definition cleaned_card :: "json \<Rightarrow> error + json" where
  "cleaned_card a_card =
     and_then (required_field a_card (str ''id'')) (\<lambda>v_id.
     and_then (required_field a_card (str ''endPointName'')) (\<lambda>v_endPointName.
     and_then (required_field a_card (str ''apiSrc'')) (\<lambda>v_apiSrc.
     and_then (required_field a_card (str ''transportProject'')) (\<lambda>v_transportProject.
     and_then (required_field a_card (str ''sectionId'')) (\<lambda>v_section.
     and_then (required_field a_card (str ''componentName'')) (\<lambda>v_componentName.
     and_then (and_then (py_get a_card (str ''embedLink'') JNull) (\<lambda>c.
                 if py_bool c
                 then and_then (py_get a_card (str ''embedLink'') (JString [])) py_strip
                 else Inr JNull)) (\<lambda>v_embedLink.
     Inr (JObject [(str ''id'', v_id),
                   (str ''endPointName'', v_endPointName),
                   (str ''apiSrc'', v_apiSrc),
                   (str ''transportProject'', v_transportProject),
                   (str ''section'', v_section),
                   (str ''componentName'', v_componentName),
                   (str ''embedLink'', v_embedLink)]))))))))"

text \<open>The body of the loop over the sections (line 122).\<close>

definition cleaned_section :: "json \<Rightarrow> error + json" where
  "cleaned_section sec =
     and_then (py_items sec) (\<lambda>kvs.
       Inr (JObject (map (\<lambda>(k, v). (k, case v of JString s \<Rightarrow> JString (strip s) | _ \<Rightarrow> v)) kvs)))"

definition get_metadata :: "upstream \<Rightarrow> pystr \<Rightarrow> outcome" where
  "get_metadata up subject =
     (if subject \<notin> set SUBJECTS then (Inl (ValueError invalid_subject_message), [])
      else
        let url = METADATA_BASE_URL @ str ''/'' @ subject in
        (and_then (fetch up url) (\<lambda>body.
           let metadata = clean_json body in
           and_then (py_get metadata (str ''cards'') (JArray [])) (\<lambda>cards.
           and_then (py_iter cards) (\<lambda>cs.
           and_then (for_each cleaned_card cs) (\<lambda>available_endpoints.
           and_then (py_get metadata (str ''sections'') (JArray [])) (\<lambda>sections.
           and_then (py_iter sections) (\<lambda>ss.
           and_then (for_each cleaned_section ss) (\<lambda>cleaned_sections.
           Inr (JObject [(str ''status'', JString (str ''success'')),
                         (str ''data'',
                          JObject [(str ''availableEndpoints'', JArray available_endpoints),
                                   (str ''sections'', JArray cleaned_sections)])])))))))),
         [url]))"

definition get_data :: "upstream \<Rightarrow> pystr \<Rightarrow> pystr \<Rightarrow> pystr \<Rightarrow> outcome" where
  "get_data up subject transportProject endPointName =
     (if subject \<notin> set SUBJECTS then (Inl (ValueError invalid_subject_message), [])
      else
        let url = DATA_BASE_URL @ str ''/'' @ endPointName in
        (and_then (fetch up url) (\<lambda>body.
           let data = clean_json body in
           Inr (JObject [(str ''status'', JString (str ''success'')),
                         (str ''metadata'',
                          JObject [(str ''subject'', JString subject),
                                   (str ''transportProject'', JString transportProject),
                                   (str ''endpoint'', JString endPointName)]),
                         (str ''data'', data)])),
         [url]))"

text \<open>
  The comprehension of line 225, \<open>[link for link in links if link["sectionId"] == sectionId]\<close>:
  \<open>==\<close> between a parsed value and a string holds for the same string only.
\<close>

definition filter_links :: "pystr \<Rightarrow> json \<Rightarrow> error + json" where
  "filter_links sectionId links =
     and_then (py_iter links) (\<lambda>ls.
     and_then (filter_each (\<lambda>link.
                 and_then (py_getitem link (str ''sectionId'')) (\<lambda>v. Inr (v = JString sectionId))) ls)
       (\<lambda>kept. Inr (JArray kept)))"

text \<open>\<open>sectionId\<close> is \<open>Optional[str]\<close>; \<open>if sectionId:\<close> is false for \<open>None\<close> and for \<open>""\<close>.\<close>

definition get_links :: "upstream \<Rightarrow> pystr \<Rightarrow> pystr option \<Rightarrow> outcome" where
  "get_links up subject sectionId =
     (if subject \<notin> set SUBJECTS then (Inl (ValueError invalid_subject_message), [])
      else
        let url = METADATA_BASE_URL @ str ''/'' @ subject in
        (and_then (fetch up url) (\<lambda>body.
           let metadata = clean_json body in
           and_then (py_get metadata (str ''links'') (JArray [])) (\<lambda>links.
           and_then (case sectionId of
                       None \<Rightarrow> Inr links
                     | Some sid \<Rightarrow> if sid \<noteq> [] then filter_links sid links else Inr links)
             (\<lambda>links'.
           Inr (JObject [(str ''status'', JString (str ''success'')),
                         (str ''data'', JObject [(str ''links'', links')])])))),
         [url]))"

section \<open>Vocabulary of the properties\<close>

text \<open>
  An upstream that answers every GET with status 200 and the given document, and two
  metadata documents used as concrete inputs: a well-formed one (with whitespace to
  trim), and one whose card lacks \<open>id\<close> and whose link lacks \<open>sectionId\<close>.
\<close>

definition const_upstream :: "json \<Rightarrow> upstream" where
  "const_upstream doc url = Some \<lparr>status_code = 200, json_body = Some doc\<rparr>"

definition example_metadata :: json where
  "example_metadata = JObject
     [(str ''cards'',
       JArray [JObject [(str ''id'', JString (str '' c1 '')),
                        (str ''endPointName'', JString (str ''e'')),
                        (str ''apiSrc'', JString (str ''a'')),
                        (str ''transportProject'', JString (str ''t'')),
                        (str ''sectionId'', JString (str ''S1'')),
                        (str ''componentName'', JString (str ''cn''))]]),
      (str ''sections'', JArray [JObject [(str ''id'', JString (str '' S1''))]]),
      (str ''links'',
       JArray [JObject [(str ''sectionId'', JString (str ''S1 ''))],
               JObject [(str ''sectionId'', JString (str ''S2''))]])]"

definition incomplete_metadata :: json where
  "incomplete_metadata = JObject
     [(str ''cards'', JArray [JObject [(str ''endPointName'', JString (str ''e''))]]),
      (str ''links'', JArray [JObject [(str ''url'', JString (str ''u''))]])]"

text \<open>The envelope \<open>get_links\<close> returns around a value \<open>links\<close>.\<close>

definition links_envelope :: "json \<Rightarrow> json" where
  "links_envelope links =
     JObject [(str ''status'', JString (str ''success'')),
              (str ''data'', JObject [(str ''links'', links)])]"

text \<open>
  The specification's filter: the links whose \<open>sectionId\<close> field is the given string, in
  their order.
\<close>

definition matching_links :: "pystr \<Rightarrow> json list \<Rightarrow> json list" where
  "matching_links sectionId ls =
     filter (\<lambda>link. py_getitem link (str ''sectionId'') = Inr (JString sectionId)) ls"

text \<open>
  The specification's envelope: a mapping whose \<open>status\<close> is the string \<open>success\<close> and
  which has a \<open>data\<close> key; and an envelope whose \<open>data\<close> is itself a mapping.
\<close>

definition success_envelope :: "json \<Rightarrow> bool" where
  "success_envelope env =
     (case env of
        JObject kvs \<Rightarrow>
          map_of kvs (str ''status'') = Some (JString (str ''success'')) \<and>
          map_of kvs (str ''data'') \<noteq> None
      | _ \<Rightarrow> False)"

definition payload_is_mapping :: "json \<Rightarrow> bool" where
  "payload_is_mapping env =
     (case env of
        JObject kvs \<Rightarrow>
          (case map_of kvs (str ''data'') of Some (JObject payload) \<Rightarrow> True | _ \<Rightarrow> False)
      | _ \<Rightarrow> False)"

text \<open>The fields of a card that \<open>get_metadata\<close> reads with \<open>card[...]\<close> (lines 109-114).\<close>

definition required_fields :: "pystr list" where
  "required_fields = [str ''id'', str ''endPointName'', str ''apiSrc'', str ''transportProject'',
                      str ''sectionId'', str ''componentName'']"

text \<open>
  The exceptions Python raises on a document of the wrong shape, as opposed to the
  \<open>ValueError\<close> of the subject check and the failures of the HTTP client.
\<close>

definition shape_error :: "error \<Rightarrow> bool" where
  "shape_error e =
     (case e of KeyError k \<Rightarrow> True | TypeError \<Rightarrow> True | AttributeError \<Rightarrow> True | _ \<Rightarrow> False)"

section \<open>Stripping\<close>

lemma dropWhile_fix: "xs = [] \<or> \<not> P (hd xs) \<Longrightarrow> dropWhile P xs = xs"
  by (cases xs) auto

lemma dropWhile_head: "dropWhile P xs = [] \<or> \<not> P (hd (dropWhile P xs))"
  using hd_dropWhile by blast

lemma rstrip_split: "xs = rev (dropWhile P (rev xs)) @ rev (takeWhile P (rev xs))"
  by (metis rev_append rev_rev_ident takeWhile_dropWhile_id)

lemma rstrip_keeps_head:
  assumes "xs = [] \<or> \<not> P (hd xs)"
  shows "rev (dropWhile P (rev xs)) = [] \<or> \<not> P (hd (rev (dropWhile P (rev xs))))"
proof (cases "rev (dropWhile P (rev xs)) = []")
  case True
  then show ?thesis by blast
next
  case False
  then have "hd (rev (dropWhile P (rev xs))) = hd xs"
    using rstrip_split[of xs P] by (metis hd_append2)
  moreover from False have "xs \<noteq> []" by auto
  ultimately show ?thesis using assms by simp
qed

lemma rstrip_last:
  "rev (dropWhile P (rev xs)) = [] \<or> \<not> P (last (rev (dropWhile P (rev xs))))"
  using dropWhile_head[of P "rev xs"] by (simp add: last_rev)

lemma strip_ends:
  "strip s = [] \<or> (\<not> py_isspace (hd (strip s)) \<and> \<not> py_isspace (last (strip s)))"
  unfolding strip_def
  using rstrip_keeps_head[of "dropWhile py_isspace s" py_isspace] dropWhile_head[of py_isspace s]
    rstrip_last[of py_isspace "dropWhile py_isspace s"]
  by blast

lemma strip_fix:
  assumes "t = [] \<or> (\<not> py_isspace (hd t) \<and> \<not> py_isspace (last t))"
  shows "strip t = t"
proof -
  have 1: "dropWhile py_isspace t = t" using assms by (intro dropWhile_fix) blast
  have "rev t = [] \<or> \<not> py_isspace (hd (rev t))" using assms by (auto simp: hd_rev)
  then have "dropWhile py_isspace (rev t) = rev t" by (rule dropWhile_fix)
  with 1 show ?thesis by (simp add: strip_def)
qed

lemma strip_idem: "strip (strip s) = strip s"
  by (rule strip_fix) (rule strip_ends)

lemma strip_split:
  "s = takeWhile py_isspace s @ strip s @
       rev (takeWhile py_isspace (rev (dropWhile py_isspace s)))"
  unfolding strip_def
  using rstrip_split[of "dropWhile py_isspace s" py_isspace] by (metis takeWhile_dropWhile_id)

lemma takeWhile_all: "list_all P (takeWhile P xs)"
  by (induction xs) auto

lemma str_eq_iff [simp]: "str a = str b \<longleftrightarrow> a = b"
  unfolding str_def by (simp add: inj_map_eq_map inj_of_char)

lemma str_Nil [simp]: "str s = [] \<longleftrightarrow> s = []"
  by (simp add: str_def)

text \<open>The example of the specification: \<open>trim({"a": "  x\n"}) == {"a": "x"}\<close>.\<close>

lemma clean_json_example:
  "clean_json (JObject [(str ''a'', JString (str ''  x'' @ [10]))]) = JObject [(str ''a'', JString (str ''x''))]"
  by (simp add: strip_def py_isspace_def str_def)

section \<open>The trim pass: idempotence, structure, termination\<close>

text \<open>
  C1. The trim pass is idempotent: for every JSON value \<open>T\<close>, trimming the trimmed value
  gives the trimmed value again.
\<close>

theorem clean_json_idempotent: "clean_json (clean_json T) = clean_json T"
  by (induction T rule: clean_json.induct) (auto simp: strip_idem)

text \<open>
  C2. The trim pass preserves structure. A mapping becomes a mapping with the same keys in
  the same order, each value trimmed; a sequence becomes the sequence of its trimmed
  elements, of the same length and in the same order; an integer, a float, a boolean and
  null are returned as they are; a string \<open>s\<close> becomes a string \<open>t\<close> with
  \<open>s = pre @ t @ suf\<close> where \<open>pre\<close> and \<open>suf\<close> are whitespace only, and \<open>t\<close> neither starts
  nor ends with whitespace, so nothing inside \<open>t\<close> is touched.
\<close>

theorem clean_json_preserves_structure:
  "(\<exists>kvs'. clean_json (JObject kvs) = JObject kvs' \<and>
            map fst kvs' = map fst kvs \<and>
            map snd kvs' = map (clean_json \<circ> snd) kvs) \<and>
   (\<exists>ys. clean_json (JArray xs) = JArray ys \<and>
          length ys = length xs \<and>
          ys = map clean_json xs) \<and>
   clean_json (JInt i) = JInt i \<and>
   clean_json (JFloat w) = JFloat w \<and>
   clean_json (JBool b) = JBool b \<and>
   clean_json JNull = JNull \<and>
   (\<exists>pre t suf. clean_json (JString s) = JString t \<and>
                 s = pre @ t @ suf \<and>
                 list_all py_isspace pre \<and> list_all py_isspace suf \<and>
                 (t = [] \<or> (\<not> py_isspace (hd t) \<and> \<not> py_isspace (last t))))"
proof -
  have obj: "map fst (map (\<lambda>(k, v). (k, clean_json v)) kvs) = map fst kvs"
    by (induction kvs) auto
  have vals: "map snd (map (\<lambda>(k, v). (k, clean_json v)) kvs) = map (clean_json \<circ> snd) kvs"
    by (induction kvs) auto
  have "\<exists>pre t suf. JString (strip s) = JString t \<and> s = pre @ t @ suf \<and>
          list_all py_isspace pre \<and> list_all py_isspace suf \<and>
          (t = [] \<or> (\<not> py_isspace (hd t) \<and> \<not> py_isspace (last t)))"
  proof (intro exI conjI)
    show "JString (strip s) = JString (strip s)" by (rule refl)
    show "s = takeWhile py_isspace s @ strip s @
            rev (takeWhile py_isspace (rev (dropWhile py_isspace s)))"
      by (rule strip_split)
    show "list_all py_isspace (takeWhile py_isspace s)" by (rule takeWhile_all)
    show "list_all py_isspace (rev (takeWhile py_isspace (rev (dropWhile py_isspace s))))"
      using takeWhile_all[of py_isspace "rev (dropWhile py_isspace s)"]
      by (simp add: list_all_iff)
    show "strip s = [] \<or> (\<not> py_isspace (hd (strip s)) \<and> \<not> py_isspace (last (strip s)))"
      by (rule strip_ends)
  qed
  with obj vals show ?thesis by simp
qed

lemma those_map_Some: "those (map (\<lambda>x. Some (f x)) xs) = Some (map f xs)"
  by (induction xs) auto

lemma foldr_max_ge: "x \<in> set xs \<Longrightarrow> x \<le> foldr max xs (0::nat)"
  by (induction xs) auto

lemma fuel_enough: "depth T < n \<Longrightarrow> clean_json_fuel n T = Some (clean_json T)"
proof (induction T arbitrary: n rule: clean_json.induct)
  case (1 kvs)
  then obtain m where n: "n = Suc m" by (cases n) auto
  have "map (\<lambda>(k, v). map_option (Pair k) (clean_json_fuel m v)) kvs
        = map (\<lambda>p. Some (case p of (k, v) \<Rightarrow> (k, clean_json v))) kvs"
  proof (rule map_cong[OF refl])
    fix p assume p: "p \<in> set kvs"
    obtain k v where kv: "p = (k, v)" by (cases p)
    have "depth v \<in> set (map (\<lambda>(k, v). depth v) kvs)" using p kv by force
    then have "depth v \<le> foldr max (map (\<lambda>(k, v). depth v) kvs) 0" by (rule foldr_max_ge)
    with "1.prems" n have "depth v < m" by simp
    then have "clean_json_fuel m v = Some (clean_json v)"
      by (rule "1.IH"[OF p kv[symmetric]])
    then show "(case p of (k, v) \<Rightarrow> map_option (Pair k) (clean_json_fuel m v))
        = Some (case p of (k, v) \<Rightarrow> (k, clean_json v))" by (simp add: kv)
  qed
  then show ?case
    by (simp only: n clean_json_fuel.simps clean_json.simps those_map_Some option.map)
next
  case (2 xs)
  then obtain m where n: "n = Suc m" by (cases n) auto
  have "map (clean_json_fuel m) xs = map (\<lambda>x. Some (clean_json x)) xs"
  proof (rule map_cong[OF refl])
    fix x assume x: "x \<in> set xs"
    then have "depth x \<le> foldr max (map depth xs) 0" by (intro foldr_max_ge) simp
    with "2.prems" n have "depth x < m" by simp
    then show "clean_json_fuel m x = Some (clean_json x)" by (rule "2.IH"[OF x])
  qed
  then show ?case
    by (simp only: n clean_json_fuel.simps clean_json.simps those_map_Some option.map)
qed (case_tac n; simp)+

text \<open>
  C9. The trim pass terminates on every finite JSON tree. \<open>clean_json\<close> is a total
  recursive function on the (finite) values of type \<open>json\<close>; run with a budget of nested
  calls, it returns its result as soon as the budget exceeds the nesting depth of the
  tree, and so with every larger budget.
\<close>

theorem clean_json_terminates:
  "clean_json_fuel (Suc (depth T) + k) T = Some (clean_json T)"
  by (rule fuel_enough) simp

section \<open>Helper facts about the tools\<close>

lemma and_then_simps [simp]:
  "and_then (Inl e) f = Inl e" "and_then (Inr x) f = f x"
  by (simp_all add: and_then_def)

lemma and_then_Inr_iff: "and_then m f = Inr y \<longleftrightarrow> (\<exists>x. m = Inr x \<and> f x = Inr y)"
  by (cases m) auto

lemma get_links_unfiltered:
  assumes "subject \<in> set SUBJECTS"
      and "fetch up (METADATA_BASE_URL @ str ''/'' @ subject) = Inr doc"
      and "py_get (clean_json doc) (str ''links'') (JArray []) = Inr links"
  shows "fst (get_links up subject None) = Inr (links_envelope links)"
  using assms by (simp add: get_links_def links_envelope_def)

lemma filter_each_total:
  "\<forall>l\<in>set ls. \<exists>b. p l = Inr b \<Longrightarrow> filter_each p ls = Inr (filter (\<lambda>l. p l = Inr True) ls)"
  by (induction ls) auto

lemma filter_links_array:
  assumes "\<forall>l\<in>set ls. \<exists>v. py_getitem l (str ''sectionId'') = Inr v"
  shows "filter_links sid (JArray ls) = Inr (JArray (matching_links sid ls))"
proof -
  let ?p = "\<lambda>link. and_then (py_getitem link (str ''sectionId'')) (\<lambda>v. Inr (v = JString sid))"
  have tot: "\<forall>l\<in>set ls. \<exists>b. ?p l = Inr b" using assms by auto
  have "filter (\<lambda>l. ?p l = Inr True) ls = matching_links sid ls"
    unfolding matching_links_def
  proof (rule filter_cong[OF refl])
    fix l assume "l \<in> set ls"
    with assms obtain v where "py_getitem l (str ''sectionId'') = Inr v" by blast
    then show "(?p l = Inr True) = (py_getitem l (str ''sectionId'') = Inr (JString sid))" by simp
  qed
  with filter_each_total[OF tot] show ?thesis
    by (simp add: filter_links_def py_iter_def)
qed

lemma sublist_join: "s \<in> set xs \<Longrightarrow> sublist s (join sep xs)"
proof (induction sep xs rule: join.induct)
  case (3 sep x y ys)
  show ?case
  proof (cases "s = x")
    case True
    then show ?thesis by (simp add: sublist_append_rightI)
  next
    case False
    with 3 have "sublist s (join sep (y # ys))" by simp
    then have "sublist s (x @ sep @ join sep (y # ys))"
      by (simp add: sublist_append)
    then show ?thesis by simp
  qed
qed auto

lemma SUBJECTS_eq: "SUBJECTS = [str ''warCasualties'', str ''medicalServices'', str ''beaches'',
     str ''HMO_insured_main'', str ''childKi'', str ''childCheckup'', str ''serviceQuality'']"
  by (simp add: SUBJECTS_def SUBJECTS_INFO_def)

lemma str_append: "str a @ str b = str (a @ b)"
  by (simp add: str_def)

lemma message_eq: "invalid_subject_message = str ''Invalid subject. Must be one of: warCasualties, medicalServices, beaches, HMO_insured_main, childKi, childCheckup, serviceQuality''"
  by (simp add: invalid_subject_message_def SUBJECTS_eq str_append)

lemma beaches_valid: "str ''beaches'' \<in> set SUBJECTS"
  by (simp add: SUBJECTS_eq)

lemma fetch_const: "fetch (const_upstream doc) url = Inr doc"
  by (simp add: fetch_def const_upstream_def)

lemma clean_example_metadata:
  "clean_json example_metadata = JObject
     [(str ''cards'', JArray [JObject [(str ''id'', JString (str ''c1'')), (str ''endPointName'', JString (str ''e'')),
         (str ''apiSrc'', JString (str ''a'')), (str ''transportProject'', JString (str ''t'')),
         (str ''sectionId'', JString (str ''S1'')), (str ''componentName'', JString (str ''cn''))]]),
      (str ''sections'', JArray [JObject [(str ''id'', JString (str ''S1''))]]),
      (str ''links'', JArray [JObject [(str ''sectionId'', JString (str ''S1''))],
                              JObject [(str ''sectionId'', JString (str ''S2''))]])]"
  by (simp add: example_metadata_def strip_def py_isspace_def str_def)

lemma links_example_metadata:
  "py_get (clean_json example_metadata) (str ''links'') (JArray []) =
     Inr (JArray [JObject [(str ''sectionId'', JString (str ''S1''))],
                  JObject [(str ''sectionId'', JString (str ''S2''))]])"
  by (simp add: clean_example_metadata py_get_def)

lemma clean_incomplete_metadata: "clean_json incomplete_metadata = incomplete_metadata"
  by (simp add: incomplete_metadata_def strip_def py_isspace_def str_def)

lemma get_links_incomplete:
  "fst (get_links (const_upstream incomplete_metadata) (str ''beaches'') (Some (str ''S1''))) =
     Inl (KeyError (str ''sectionId''))"
proof -
  have "py_get (clean_json incomplete_metadata) (str ''links'') (JArray []) =
          Inr (JArray [JObject [(str ''url'', JString (str ''u''))]])"
    unfolding clean_incomplete_metadata by (simp add: incomplete_metadata_def py_get_def)
  then show ?thesis
    by (simp add: get_links_def beaches_valid fetch_const filter_links_def py_iter_def
        py_getitem_def)
qed

lemma required_field_shape: "required_field c k = Inl e \<Longrightarrow> shape_error e"
  by (auto simp: required_field_def py_getitem_def py_strip_def shape_error_def and_then_def
           split: json.splits option.splits sum.splits)

lemma py_get_shape: "py_get c k d = Inl e \<Longrightarrow> shape_error e"
  by (auto simp: py_get_def shape_error_def split: json.splits)

lemma py_strip_shape: "py_strip v = Inl e \<Longrightarrow> shape_error e"
  by (auto simp: py_strip_def shape_error_def split: json.splits)

lemma and_then_Inl: "and_then m f = Inl e \<Longrightarrow> m = Inl e \<or> (\<exists>x. m = Inr x \<and> f x = Inl e)"
  by (cases m) auto

lemma cleaned_card_shape: "cleaned_card c = Inl e \<Longrightarrow> shape_error e"
  unfolding cleaned_card_def
  by (auto dest!: and_then_Inl dest: required_field_shape py_get_shape py_strip_shape split: if_splits)

lemma cleaned_card_required:
  assumes "cleaned_card c = Inr r" and "k \<in> set required_fields"
  shows "\<exists>v. required_field c k = Inr v"
  using assms unfolding cleaned_card_def required_fields_def
  by (auto simp: and_then_Inr_iff)

lemma required_field_missing:
  "map_of kvs k = None \<Longrightarrow> required_field (JObject kvs) k = Inl (KeyError k)"
  by (simp add: required_field_def py_getitem_def)

lemma cleaned_card_missing:
  assumes "k \<in> set required_fields" and "map_of kvs k = None"
  shows "\<exists>e. cleaned_card (JObject kvs) = Inl e \<and> shape_error e"
proof (cases "cleaned_card (JObject kvs)")
  case (Inl e)
  then show ?thesis using cleaned_card_shape by blast
next
  case (Inr r)
  from cleaned_card_required[OF Inr assms(1)] required_field_missing[OF assms(2)]
  show ?thesis by simp
qed

lemma for_each_fails:
  "x \<in> set xs \<Longrightarrow> f x = Inl e0 \<Longrightarrow> \<exists>e y. for_each f xs = Inl e \<and> y \<in> set xs \<and> f y = Inl e"
  by (induction xs) (auto split: sum.splits)

lemma filter_each_fails:
  "x \<in> set xs \<Longrightarrow> p x = Inl e0 \<Longrightarrow> \<exists>e y. filter_each p xs = Inl e \<and> y \<in> set xs \<and> p y = Inl e"
  by (induction xs) (auto split: sum.splits)

lemma py_getitem_shape: "py_getitem c k = Inl e \<Longrightarrow> shape_error e"
  by (auto simp: py_getitem_def shape_error_def split: json.splits option.splits)

section \<open>Filtering links\<close>

text \<open>
  C3, as amended. Let the subject be valid, the upstream answer with a document, and the
  \<open>links\<close> entry of the trimmed document be an array \<open>ls\<close> (or be absent, which gives
  the empty array). Without a \<open>sectionId\<close>, \<open>get_links\<close> returns all of \<open>ls\<close>. With a
  \<open>sectionId\<close> that is not the empty string, and every link an object with a \<open>sectionId\<close>
  field, it returns exactly the links whose \<open>sectionId\<close> is that string (compared as it
  is, with no normalisation of the argument), in their order: a subsequence of \<open>ls\<close>.
\<close>

theorem get_links_filters:
  assumes "subject \<in> set SUBJECTS"
      and "fetch up (METADATA_BASE_URL @ str ''/'' @ subject) = Inr doc"
      and "py_get (clean_json doc) (str ''links'') (JArray []) = Inr (JArray ls)"
  shows "fst (get_links up subject None) = Inr (links_envelope (JArray ls)) \<and>
         (sid \<noteq> [] \<longrightarrow> (\<forall>l\<in>set ls. \<exists>v. py_getitem l (str ''sectionId'') = Inr v) \<longrightarrow>
            fst (get_links up subject (Some sid)) = Inr (links_envelope (JArray (matching_links sid ls))) \<and>
            subseq (matching_links sid ls) ls)"
proof (intro conjI impI)
  show "fst (get_links up subject None) = Inr (links_envelope (JArray ls))"
    using assms by (rule get_links_unfiltered)
next
  assume "sid \<noteq> []" and "\<forall>l\<in>set ls. \<exists>v. py_getitem l (str ''sectionId'') = Inr v"
  then show "fst (get_links up subject (Some sid)) = Inr (links_envelope (JArray (matching_links sid ls)))"
    using assms by (simp add: get_links_def links_envelope_def filter_links_array)
next
  show "subseq (matching_links sid ls) ls"
    by (simp add: matching_links_def)
qed

text \<open>
  The amended C3 at a concrete input: the link whose upstream \<open>sectionId\<close> is \<open>"S1 "\<close> is
  trimmed and then matches \<open>"S1"\<close>.
\<close>

theorem get_links_filters_witness:
  "str ''beaches'' \<in> set SUBJECTS \<and>
   fetch (const_upstream example_metadata) (METADATA_BASE_URL @ str ''/'' @ str ''beaches'') = Inr example_metadata \<and>
   py_get (clean_json example_metadata) (str ''links'') (JArray []) =
     Inr (JArray [JObject [(str ''sectionId'', JString (str ''S1''))],
                  JObject [(str ''sectionId'', JString (str ''S2''))]]) \<and>
   str ''S1'' \<noteq> [] \<and>
   py_getitem (JObject [(str ''sectionId'', JString (str ''S1''))]) (str ''sectionId'') = Inr (JString (str ''S1'')) \<and>
   py_getitem (JObject [(str ''sectionId'', JString (str ''S2''))]) (str ''sectionId'') = Inr (JString (str ''S2'')) \<and>
   fst (get_links (const_upstream example_metadata) (str ''beaches'') None) =
     Inr (links_envelope (JArray [JObject [(str ''sectionId'', JString (str ''S1''))],
                                  JObject [(str ''sectionId'', JString (str ''S2''))]])) \<and>
   fst (get_links (const_upstream example_metadata) (str ''beaches'') (Some (str ''S1''))) =
     Inr (links_envelope (JArray [JObject [(str ''sectionId'', JString (str ''S1''))]]))"
  using get_links_filters[OF beaches_valid fetch_const links_example_metadata, of "str ''S1''"]
  by (simp add: beaches_valid fetch_const links_example_metadata py_getitem_def matching_links_def)

text \<open>
  C3 as stated fails where the supplied \<open>sectionId\<close> is the empty string: the link with
  \<open>sectionId\<close> \<open>"S1"\<close> is returned, though no link's \<open>sectionId\<close> equals \<open>""\<close>. It also
  fails on a document whose link has no \<open>sectionId\<close>: the call raises \<open>KeyError\<close> and
  returns no list.
\<close>

theorem get_links_filters_counterexample:
  "fst (get_links (const_upstream (JObject [(str ''links'', JArray [JObject [(str ''sectionId'', JString (str ''S1''))]])]))
         (str ''beaches'') (Some []))
     = Inr (links_envelope (JArray [JObject [(str ''sectionId'', JString (str ''S1''))]])) \<and>
   matching_links [] [JObject [(str ''sectionId'', JString (str ''S1''))]] = [] \<and>
   fst (get_links (const_upstream (JObject [(str ''links'', JArray [JObject [(str ''sectionId'', JString (str ''S1''))]])]))
         (str ''beaches'') (Some []))
     \<noteq> Inr (links_envelope (JArray (matching_links [] [JObject [(str ''sectionId'', JString (str ''S1''))]]))) \<and>
   fst (get_links (const_upstream incomplete_metadata) (str ''beaches'') (Some (str ''S1''))) =
     Inl (KeyError (str ''sectionId''))"
  (is "?returned \<and> ?expected \<and> ?differ \<and> ?raised")
proof -
  have "strip (str ''S1'') = str ''S1''" by (simp add: strip_def py_isspace_def str_def)
  then have "?returned \<and> ?expected \<and> ?differ"
    by (simp add: get_links_def beaches_valid fetch_const py_get_def links_envelope_def
        matching_links_def py_getitem_def)
  moreover have ?raised by (rule get_links_incomplete)
  ultimately show ?thesis by blast
qed

text \<open>
  C10. \<open>get_links\<close> with \<open>sectionId\<close> the empty string does what it does with
  \<open>sectionId\<close> omitted (same result, same request), and so returns the whole \<open>links\<close>
  value of the trimmed document, unfiltered.
\<close>

theorem get_links_empty_sectionId:
  "get_links up subject (Some []) = get_links up subject None \<and>
   (subject \<in> set SUBJECTS \<longrightarrow>
    fetch up (METADATA_BASE_URL @ str ''/'' @ subject) = Inr doc \<longrightarrow>
    py_get (clean_json doc) (str ''links'') (JArray []) = Inr links \<longrightarrow>
    fst (get_links up subject (Some [])) = Inr (links_envelope links))"
proof -
  have "get_links up subject (Some []) = get_links up subject None"
    by (simp add: get_links_def)
  then show ?thesis by (simp add: get_links_unfiltered)
qed

theorem get_links_empty_sectionId_witness:
  "str ''beaches'' \<in> set SUBJECTS \<and>
   fetch (const_upstream example_metadata) (METADATA_BASE_URL @ str ''/'' @ str ''beaches'') = Inr example_metadata \<and>
   py_get (clean_json example_metadata) (str ''links'') (JArray []) =
     Inr (JArray [JObject [(str ''sectionId'', JString (str ''S1''))],
                  JObject [(str ''sectionId'', JString (str ''S2''))]]) \<and>
   fst (get_links (const_upstream example_metadata) (str ''beaches'') (Some [])) =
     Inr (links_envelope (JArray [JObject [(str ''sectionId'', JString (str ''S1''))],
                                  JObject [(str ''sectionId'', JString (str ''S2''))]]))"
  using get_links_empty_sectionId[of "const_upstream example_metadata" "str ''beaches''" example_metadata
      "JArray [JObject [(str ''sectionId'', JString (str ''S1''))],
               JObject [(str ''sectionId'', JString (str ''S2''))]]",
      THEN conjunct2, rule_format, OF beaches_valid fetch_const links_example_metadata]
    beaches_valid fetch_const links_example_metadata
  by blast

section \<open>The request of \<open>get_data\<close>\<close>

text \<open>
  C4. For a valid subject, two calls of \<open>get_data\<close> that differ in \<open>transportProject\<close>
  only request the same single URL, \<open>DATA_BASE_URL/endPointName\<close>; they fail with the same
  exception, or both succeed with envelopes that are equal except for
  \<open>metadata.transportProject\<close>, which echoes the argument.
\<close>

theorem get_data_ignores_transportProject:
  assumes "subject \<in> set SUBJECTS"
  shows "snd (get_data up subject tp1 endPointName) = [DATA_BASE_URL @ str ''/'' @ endPointName] \<and>
         snd (get_data up subject tp2 endPointName) = [DATA_BASE_URL @ str ''/'' @ endPointName] \<and>
         (case fst (get_data up subject tp1 endPointName) of
            Inl e \<Rightarrow> fst (get_data up subject tp2 endPointName) = Inl e
          | Inr env \<Rightarrow> \<exists>d.
              env = JObject [(str ''status'', JString (str ''success'')),
                             (str ''metadata'',
                              JObject [(str ''subject'', JString subject),
                                       (str ''transportProject'', JString tp1),
                                       (str ''endpoint'', JString endPointName)]),
                             (str ''data'', d)] \<and>
              fst (get_data up subject tp2 endPointName) =
                Inr (JObject [(str ''status'', JString (str ''success'')),
                              (str ''metadata'',
                               JObject [(str ''subject'', JString subject),
                                        (str ''transportProject'', JString tp2),
                                        (str ''endpoint'', JString endPointName)]),
                              (str ''data'', d)]))"
  using assms by (simp add: get_data_def and_then_def Let_def split: sum.splits)

theorem get_data_ignores_transportProject_witness:
  "str ''beaches'' \<in> set SUBJECTS \<and>
   snd (get_data (const_upstream (JString (str '' ok ''))) (str ''beaches'') (str ''p1'') (str ''someEndpoint''))
     = [str ''https://datadashboard.health.gov.il/api/someEndpoint''] \<and>
   snd (get_data (const_upstream (JString (str '' ok ''))) (str ''beaches'') (str ''p2'') (str ''someEndpoint''))
     = [str ''https://datadashboard.health.gov.il/api/someEndpoint''] \<and>
   fst (get_data (const_upstream (JString (str '' ok ''))) (str ''beaches'') (str ''p2'') (str ''someEndpoint''))
     = Inr (JObject [(str ''status'', JString (str ''success'')),
                     (str ''metadata'',
                      JObject [(str ''subject'', JString (str ''beaches'')),
                               (str ''transportProject'', JString (str ''p2'')),
                               (str ''endpoint'', JString (str ''someEndpoint''))]),
                     (str ''data'', JString (str ''ok''))])"
proof -
  have d: "fst (get_data (const_upstream (JString (str '' ok ''))) (str ''beaches'') (str ''p1'') (str ''someEndpoint''))
     = Inr (JObject [(str ''status'', JString (str ''success'')),
                     (str ''metadata'',
                      JObject [(str ''subject'', JString (str ''beaches'')),
                               (str ''transportProject'', JString (str ''p1'')),
                               (str ''endpoint'', JString (str ''someEndpoint''))]),
                     (str ''data'', JString (str ''ok''))])"
  proof -
    have "strip (str '' ok '') = str ''ok''"
      by (simp add: strip_def py_isspace_def str_def)
    then show ?thesis
      by (simp add: get_data_def beaches_valid fetch_const and_then_def)
  qed
  show ?thesis
    using get_data_ignores_transportProject[OF beaches_valid, of "const_upstream (JString (str '' ok ''))" "str ''p1''" "str ''someEndpoint''" "str ''p2''"]
    by (simp add: d beaches_valid DATA_BASE_URL_def str_append)
qed

section \<open>Subject validation\<close>

text \<open>
  C5. For a subject that is not a key of the catalog, \<open>get_metadata\<close>, \<open>get_data\<close> and
  \<open>get_links\<close> raise \<open>ValueError\<close> and request nothing from the upstream (the list of
  requested URLs is empty); the message contains each of the 7 subject ids.
\<close>

theorem invalid_subject_raises:
  assumes "subject \<notin> set SUBJECTS"
  shows "get_metadata up subject = (Inl (ValueError invalid_subject_message), []) \<and>
         get_data up subject transportProject endPointName = (Inl (ValueError invalid_subject_message), []) \<and>
         get_links up subject sectionId = (Inl (ValueError invalid_subject_message), []) \<and>
         length SUBJECTS = 7 \<and> distinct SUBJECTS \<and>
         (\<forall>s \<in> set SUBJECTS. sublist s invalid_subject_message) \<and>
         invalid_subject_message = str ''Invalid subject. Must be one of: warCasualties, medicalServices, beaches, HMO_insured_main, childKi, childCheckup, serviceQuality''"
proof -
  have "\<forall>s \<in> set SUBJECTS. sublist s invalid_subject_message"
    unfolding invalid_subject_message_def
    by (simp add: sublist_append sublist_join)
  moreover have "length SUBJECTS = 7" "distinct SUBJECTS" by (simp_all add: SUBJECTS_eq)
  ultimately show ?thesis using assms
    by (simp add: get_metadata_def get_data_def get_links_def message_eq)
qed

theorem invalid_subject_raises_witness:
  "str ''not_a_subject'' \<notin> set SUBJECTS \<and>
   get_metadata (const_upstream JNull) (str ''not_a_subject'') = (Inl (ValueError invalid_subject_message), []) \<and>
   get_data (const_upstream JNull) (str ''not_a_subject'') (str ''p1'') (str ''e'') = (Inl (ValueError invalid_subject_message), []) \<and>
   get_links (const_upstream JNull) (str ''not_a_subject'') None = (Inl (ValueError invalid_subject_message), [])"
proof -
  have h: "str ''not_a_subject'' \<notin> set SUBJECTS" by (simp add: SUBJECTS_eq)
  show ?thesis
    using h invalid_subject_raises[OF h, of "const_upstream JNull" "str ''p1''" "str ''e''" None]
    by simp
qed

section \<open>Envelopes\<close>

text \<open>
  C6. Whenever one of the four tools returns, what it returns is a mapping whose
  \<open>status\<close> is \<open>"success"\<close> and which carries its payload under \<open>data\<close>. For
  \<open>get_available_subjects\<close>, \<open>get_metadata\<close> and \<open>get_links\<close> the payload is a mapping;
  for \<open>get_data\<close> it is the trimmed body, whatever JSON value that is.
\<close>

theorem tools_return_success_envelope:
  "(fst get_available_subjects = Inr env1 \<longrightarrow> success_envelope env1 \<and> payload_is_mapping env1) \<and>
   (fst (get_metadata up subject) = Inr env2 \<longrightarrow> success_envelope env2 \<and> payload_is_mapping env2) \<and>
   (fst (get_data up subject transportProject endPointName) = Inr env3 \<longrightarrow> success_envelope env3) \<and>
   (fst (get_links up subject sectionId) = Inr env4 \<longrightarrow> success_envelope env4 \<and> payload_is_mapping env4)"
proof (intro conjI impI)
  assume a: "fst get_available_subjects = Inr env1"
  then show "success_envelope env1"
    by (auto simp: get_available_subjects_def and_then_Inr_iff success_envelope_def)
  from a show "payload_is_mapping env1"
    by (auto simp: get_available_subjects_def and_then_Inr_iff payload_is_mapping_def)
next
  assume a: "fst (get_metadata up subject) = Inr env2"
  then show "success_envelope env2"
    by (auto simp: get_metadata_def and_then_Inr_iff Let_def success_envelope_def split: if_splits)
  from a show "payload_is_mapping env2"
    by (auto simp: get_metadata_def and_then_Inr_iff Let_def payload_is_mapping_def split: if_splits)
next
  assume "fst (get_data up subject transportProject endPointName) = Inr env3"
  then show "success_envelope env3"
    by (auto simp: get_data_def and_then_Inr_iff Let_def success_envelope_def split: if_splits)
next
  assume a: "fst (get_links up subject sectionId) = Inr env4"
  then show "success_envelope env4"
    by (auto simp: get_links_def and_then_Inr_iff Let_def success_envelope_def split: if_splits)
  from a show "payload_is_mapping env4"
    by (auto simp: get_links_def and_then_Inr_iff Let_def payload_is_mapping_def split: if_splits)
qed

theorem tools_return_success_envelope_witness:
  "(case fst get_available_subjects of
      Inr env \<Rightarrow> success_envelope env \<and> payload_is_mapping env | Inl e \<Rightarrow> False) \<and>
   (case fst (get_metadata (const_upstream example_metadata) (str ''beaches'')) of
      Inr env \<Rightarrow> success_envelope env | Inl e \<Rightarrow> False) \<and>
   (case fst (get_data (const_upstream example_metadata) (str ''beaches'') (str ''p1'') (str ''someEndpoint'')) of
      Inr env \<Rightarrow> success_envelope env | Inl e \<Rightarrow> False) \<and>
   (case fst (get_links (const_upstream example_metadata) (str ''beaches'') (Some (str ''S2''))) of
      Inr env \<Rightarrow> success_envelope env | Inl e \<Rightarrow> False)"
proof -
  have s: "strip (str ''c1'') = str ''c1''" "strip (str ''e'') = str ''e''" "strip (str ''a'') = str ''a''"
    "strip (str ''t'') = str ''t''" "strip (str ''S1'') = str ''S1''" "strip (str ''cn'') = str ''cn''"
    by (simp_all add: strip_def py_isspace_def str_def)
  obtain e1 where 1: "fst get_available_subjects = Inr e1"
    by (simp add: get_available_subjects_def SUBJECTS_INFO_def subject_entry_def)
  obtain e2 where 2: "fst (get_metadata (const_upstream example_metadata) (str ''beaches'')) = Inr e2"
    by (simp add: get_metadata_def beaches_valid fetch_const clean_example_metadata py_get_def py_iter_def
        cleaned_card_def required_field_def py_getitem_def py_strip_def py_bool_def
        cleaned_section_def py_items_def s)
  obtain e3 where 3: "fst (get_data (const_upstream example_metadata) (str ''beaches'') (str ''p1'')
      (str ''someEndpoint'')) = Inr e3"
    by (simp add: get_data_def beaches_valid fetch_const)
  obtain e4 where 4: "fst (get_links (const_upstream example_metadata) (str ''beaches'') (Some (str ''S2''))) = Inr e4"
    by (simp add: get_links_def beaches_valid fetch_const clean_example_metadata py_get_def py_iter_def
        filter_links_def py_getitem_def)
  show ?thesis
    using tools_return_success_envelope[of e1 "const_upstream example_metadata" "str ''beaches''" e2
        "str ''p1''" "str ''someEndpoint''" e3 "Some (str ''S2'')" e4] 1 2 3 4
    by simp
qed

section \<open>Missing fields\<close>

text \<open>
  C7, as amended. Let the subject be valid and the upstream answer with a document that
  is a mapping. A card that is a mapping and lacks one of the six required fields makes
  \<open>get_metadata\<close> fail with an exception of Python's own (never a default), which is
  \<open>KeyError('id')\<close> when the first card lacks \<open>id\<close>; a link that is a mapping and lacks
  \<open>sectionId\<close> makes \<open>get_links\<close> fail in the same way when a non-empty \<open>sectionId\<close> is
  supplied. A document that lacks \<open>cards\<close> and \<open>sections\<close>, or \<open>links\<close>, does not fail:
  the empty list stands in for the missing entry. (\<open>clean_json\<close> keeps the keys, so a
  field is missing from the trimmed document exactly when it is missing upstream.)
\<close>

theorem missing_fields:
  assumes "subject \<in> set SUBJECTS"
      and "fetch up (METADATA_BASE_URL @ str ''/'' @ subject) = Inr doc"
      and "clean_json doc = JObject root"
  shows "(map_of root (str ''cards'') = Some (JArray cs) \<longrightarrow> JObject kvs \<in> set cs \<longrightarrow>
          k \<in> set required_fields \<longrightarrow> map_of kvs k = None \<longrightarrow>
            (\<exists>e. fst (get_metadata up subject) = Inl e \<and> shape_error e)) \<and>
         (map_of root (str ''cards'') = Some (JArray (JObject kvs # rest)) \<longrightarrow>
          map_of kvs (str ''id'') = None \<longrightarrow>
            fst (get_metadata up subject) = Inl (KeyError (str ''id''))) \<and>
         (map_of root (str ''links'') = Some (JArray ls) \<longrightarrow> JObject kvs \<in> set ls \<longrightarrow>
          map_of kvs (str ''sectionId'') = None \<longrightarrow> sid \<noteq> [] \<longrightarrow>
            (\<exists>e. fst (get_links up subject (Some sid)) = Inl e \<and> shape_error e)) \<and>
         (map_of root (str ''cards'') = None \<longrightarrow> map_of root (str ''sections'') = None \<longrightarrow>
            fst (get_metadata up subject) =
              Inr (JObject [(str ''status'', JString (str ''success'')),
                            (str ''data'',
                             JObject [(str ''availableEndpoints'', JArray []),
                                      (str ''sections'', JArray [])])])) \<and>
         (map_of root (str ''links'') = None \<longrightarrow>
            fst (get_links up subject sectionId) = Inr (links_envelope (JArray [])))"
proof (intro conjI impI)
  assume c: "map_of root (str ''cards'') = Some (JArray cs)" and m: "JObject kvs \<in> set cs"
    and k: "k \<in> set required_fields" and none: "map_of kvs k = None"
  from cleaned_card_missing[OF k none] obtain e0 where "cleaned_card (JObject kvs) = Inl e0" by blast
  from for_each_fails[of "JObject kvs" cs cleaned_card, OF m this] obtain e y where
    e: "for_each cleaned_card cs = Inl e" and "cleaned_card y = Inl e" by blast
  then have "shape_error e" using cleaned_card_shape by blast
  moreover have "fst (get_metadata up subject) = Inl e"
    using assms c e by (simp add: get_metadata_def py_get_def py_iter_def)
  ultimately show "\<exists>e. fst (get_metadata up subject) = Inl e \<and> shape_error e" by blast
next
  assume c: "map_of root (str ''cards'') = Some (JArray (JObject kvs # rest))"
    and none: "map_of kvs (str ''id'') = None"
  have "cleaned_card (JObject kvs) = Inl (KeyError (str ''id''))"
    by (simp add: cleaned_card_def required_field_missing[OF none])
  then show "fst (get_metadata up subject) = Inl (KeyError (str ''id''))"
    using assms c by (simp add: get_metadata_def py_get_def py_iter_def)
next
  assume l: "map_of root (str ''links'') = Some (JArray ls)" and m: "JObject kvs \<in> set ls"
    and none: "map_of kvs (str ''sectionId'') = None" and sid: "sid \<noteq> []"
  let ?p = "\<lambda>link. and_then (py_getitem link (str ''sectionId'')) (\<lambda>v. Inr (v = JString sid))"
  have "?p (JObject kvs) = Inl (KeyError (str ''sectionId''))"
    using none by (simp add: py_getitem_def)
  from filter_each_fails[of "JObject kvs" ls ?p, OF m this] obtain e y where
    e: "filter_each ?p ls = Inl e" and y: "?p y = Inl e" by blast
  from y have "py_getitem y (str ''sectionId'') = Inl e"
    by (cases "py_getitem y (str ''sectionId'')") auto
  then have "shape_error e" by (rule py_getitem_shape)
  moreover have "fst (get_links up subject (Some sid)) = Inl e"
    using assms l e sid by (simp add: get_links_def py_get_def filter_links_def py_iter_def)
  ultimately show "\<exists>e. fst (get_links up subject (Some sid)) = Inl e \<and> shape_error e" by blast
next
  assume "map_of root (str ''cards'') = None" and "map_of root (str ''sections'') = None"
  then show "fst (get_metadata up subject) =
      Inr (JObject [(str ''status'', JString (str ''success'')),
                    (str ''data'',
                     JObject [(str ''availableEndpoints'', JArray []),
                              (str ''sections'', JArray [])])])"
    using assms by (simp add: get_metadata_def py_get_def py_iter_def)
next
  assume "map_of root (str ''links'') = None"
  then show "fst (get_links up subject sectionId) = Inr (links_envelope (JArray []))"
    using assms
    by (cases sectionId)
       (simp_all add: get_links_def py_get_def filter_links_def py_iter_def links_envelope_def)
qed

theorem missing_fields_witness:
  "str ''beaches'' \<in> set SUBJECTS \<and>
   fetch (const_upstream incomplete_metadata) (METADATA_BASE_URL @ str ''/'' @ str ''beaches'') = Inr incomplete_metadata \<and>
   clean_json incomplete_metadata =
     JObject [(str ''cards'', JArray [JObject [(str ''endPointName'', JString (str ''e''))]]),
              (str ''links'', JArray [JObject [(str ''url'', JString (str ''u''))]])] \<and>
   str ''id'' \<in> set required_fields \<and>
   map_of [(str ''endPointName'', JString (str ''e''))] (str ''id'') = None \<and>
   map_of [(str ''url'', JString (str ''u''))] (str ''sectionId'') = None \<and>
   fst (get_metadata (const_upstream incomplete_metadata) (str ''beaches'')) = Inl (KeyError (str ''id'')) \<and>
   shape_error (KeyError (str ''id'')) \<and>
   fst (get_links (const_upstream incomplete_metadata) (str ''beaches'') (Some (str ''S1''))) = Inl (KeyError (str ''sectionId'')) \<and>
   fetch (const_upstream (JObject [])) (METADATA_BASE_URL @ str ''/'' @ str ''beaches'') = Inr (JObject []) \<and>
   clean_json (JObject []) = JObject [] \<and>
   fst (get_metadata (const_upstream (JObject [])) (str ''beaches'')) =
     Inr (JObject [(str ''status'', JString (str ''success'')),
                   (str ''data'',
                    JObject [(str ''availableEndpoints'', JArray []),
                             (str ''sections'', JArray [])])]) \<and>
   fst (get_links (const_upstream (JObject [])) (str ''beaches'') (Some (str ''S1''))) =
     Inr (links_envelope (JArray []))"
proof -
  have A: "clean_json incomplete_metadata =
     JObject [(str ''cards'', JArray [JObject [(str ''endPointName'', JString (str ''e''))]]),
              (str ''links'', JArray [JObject [(str ''url'', JString (str ''u''))]])]"
    using clean_incomplete_metadata by (simp add: incomplete_metadata_def)
  have B: "clean_json (JObject []) = JObject []" by simp
  note links = get_links_incomplete
  show ?thesis
    using missing_fields[OF beaches_valid fetch_const A,
        of "[JObject [(str ''endPointName'', JString (str ''e''))]]"
           "[(str ''endPointName'', JString (str ''e''))]" "str ''id''" "[]" "[]" "str ''S1''" None]
      missing_fields[OF beaches_valid fetch_const B, of "[]" "[]" "str ''id''" "[]" "[]" "str ''S1''"
        "Some (str ''S1'')"]
    by (simp add: beaches_valid fetch_const A links required_fields_def shape_error_def)
qed

text \<open>
  C7 as stated fails on the document \<open>{}\<close>, which lacks \<open>cards\<close>, \<open>sections\<close> and
  \<open>links\<close>: both tools succeed, with empty lists.
\<close>

theorem missing_keys_counterexample:
  "fst (get_metadata (const_upstream (JObject [])) (str ''beaches'')) =
     Inr (JObject [(str ''status'', JString (str ''success'')),
                   (str ''data'',
                    JObject [(str ''availableEndpoints'', JArray []),
                             (str ''sections'', JArray [])])]) \<and>
   fst (get_links (const_upstream (JObject [])) (str ''beaches'') None) =
     Inr (JObject [(str ''status'', JString (str ''success'')),
                   (str ''data'', JObject [(str ''links'', JArray [])])])"
  by (simp add: get_metadata_def get_links_def beaches_valid fetch_const py_get_def py_iter_def)

section \<open>The catalog listing\<close>

text \<open>
  C8. \<open>get_available_subjects\<close> takes no argument, does not fail and requests nothing;
  it returns one entry \<open>{id, name, description}\<close> for each of the 7 entries of
  \<open>SUBJECTS_INFO\<close>, in order, with that entry's id, name and description, and every name
  and description is non-empty.
\<close>

theorem get_available_subjects_lists_catalog:
  "\<exists>subjects. get_available_subjects =
       (Inr (JObject [(str ''status'', JString (str ''success'')),
                      (str ''data'', JObject [(str ''subjects'', JArray subjects)])]), []) \<and>
     length subjects = 7 \<and> length SUBJECTS_INFO = 7 \<and>
     list_all2 (\<lambda>e (subject_id, info). \<exists>n d.
         map_of info (str ''name'') = Some n \<and> map_of info (str ''description'') = Some d \<and>
         n \<noteq> [] \<and> d \<noteq> [] \<and>
         e = JObject [(str ''id'', JString subject_id), (str ''name'', JString n),
                      (str ''description'', JString d)]) subjects SUBJECTS_INFO"
  by (simp add: get_available_subjects_def SUBJECTS_INFO_def subject_entry_def and_then_def)

end
